theory Spec2Isabelle
  imports Complex_Main "HOL-Library.Sublist"
begin

section \<open>Python values used by app.py\<close>

text \<open>
  The exceptions that the modelled parts of \<^verbatim>\<open>app.py\<close> can raise. \<open>StorageError\<close> stands
  for whatever \<^verbatim>\<open>open(JSON_FILE)\<close> or \<^verbatim>\<open>json.load\<close> raise when the file is missing or is
  not valid JSON; \<open>DeviceError\<close> for whatever \<^verbatim>\<open>device.status()\<close> raises.
\<close>

datatype py_error =
  TypeError | OverflowError | ZeroDivisionError | ValueError | StorageError | DeviceError

text \<open>
  A Tuya data point value as \<^verbatim>\<open>tinytuya\<close> decodes it: a Boolean, an integer or a string.
  \<^verbatim>\<open>data\<close>, the \<^verbatim>\<open>dps\<close> dictionary, maps data point ids (strings) to such values.
\<close>

datatype dpv = B bool | N int | S string

type_synonym dps = "string \<rightharpoonup> dpv"

definition dps_get :: "dps \<Rightarrow> string \<Rightarrow> dpv \<Rightarrow> dpv" where
  \<comment> \<open>\<^verbatim>\<open>data.get(key, default)\<close>\<close>
  "dps_get data k dflt = (case data k of None \<Rightarrow> dflt | Some v \<Rightarrow> v)"

definition py_bool :: "dpv \<Rightarrow> bool" where
  \<comment> \<open>\<^verbatim>\<open>bool(v)\<close>\<close>
  "py_bool v = (case v of B b \<Rightarrow> b | N i \<Rightarrow> i \<noteq> 0 | S s \<Rightarrow> s \<noteq> [])"

definition dpv_int :: "dpv \<Rightarrow> py_error + int" where
  \<comment> \<open>the integer an arithmetic operator sees: \<^verbatim>\<open>bool\<close> is a subclass of \<^verbatim>\<open>int\<close>, a string
      operand raises \<^verbatim>\<open>TypeError\<close>\<close>
  "dpv_int v = (case v of B b \<Rightarrow> Inr (if b then 1 else 0) | N i \<Rightarrow> Inr i | S s \<Rightarrow> Inl TypeError)"

subsection \<open>Floats\<close>

text \<open>
  A Python \<^verbatim>\<open>float\<close> is an IEEE 754 binary64 value: a rational \<open>m * 2 ^ e\<close> with
  \<open>\<bar>m\<bar> < 2 ^ 53\<close> and \<open>- 1074 \<le> e \<le> 971\<close>, an infinity or a NaN. The two zeros are
  identified (Python's \<^verbatim>\<open>==\<close> identifies them too). Every operation computes the exact
  rational result and rounds it to the nearest representable value, ties to even
  (\<open>fl\<close>).
\<close>

datatype pyfloat = Finite rat | PosInf | NegInf | NaN

fun bitlen :: "nat \<Rightarrow> nat" where
  "bitlen n = (if n = 0 then 0 else Suc (bitlen (n div 2)))"

declare bitlen.simps [simp del]

definition pow2 :: "int \<Rightarrow> rat" where
  "pow2 k = (if 0 \<le> k then 2 ^ nat k else 1 / 2 ^ nat (- k))"

definition floor_log2 :: "rat \<Rightarrow> int" where
  \<comment> \<open>\<open>\<lfloor>log\<^sub>2 r\<rfloor>\<close> for \<open>0 < r\<close>\<close>
  "floor_log2 r = (if 1 \<le> r then int (bitlen (nat \<lfloor>r\<rfloor>)) - 1
                   else - int (bitlen (nat (\<lceil>1 / r\<rceil> - 1))))"

definition round_half_even :: "rat \<Rightarrow> int" where
  "round_half_even x =
     (let f = \<lfloor>x\<rfloor>; d = x - of_int f
      in if d < 1 / 2 then f else if 1 / 2 < d then f + 1
         else if even f then f else f + 1)"

definition fl :: "rat \<Rightarrow> pyfloat" where
  \<comment> \<open>round to nearest binary64, ties to even; subnormals below \<open>2 ^ - 1022\<close>, overflow to
      an infinity from \<open>2 ^ 1024\<close> on\<close>
  "fl r =
     (if r = 0 then Finite 0
      else let e = max (floor_log2 \<bar>r\<bar>) (- 1022);
               m = round_half_even (r / pow2 (e - 52))
           in if 1023 < e \<or> (e = 1023 \<and> \<bar>m\<bar> = 2 ^ 53)
              then (if 0 < r then PosInf else NegInf)
              else Finite (of_int m * pow2 (e - 52)))"

definition int_truediv :: "int \<Rightarrow> int \<Rightarrow> py_error + pyfloat" where
  \<comment> \<open>\<^verbatim>\<open>a / b\<close> on two \<^verbatim>\<open>int\<close>s: the correctly rounded quotient, \<^verbatim>\<open>OverflowError\<close> when it
      is too large for a float\<close>
  "int_truediv a b =
     (if b = 0 then Inl ZeroDivisionError
      else case fl (of_int a / of_int b) of
             Finite r \<Rightarrow> Inr (Finite r)
           | _ \<Rightarrow> Inl OverflowError)"

definition dpv_truediv :: "dpv \<Rightarrow> int \<Rightarrow> py_error + pyfloat" where
  \<comment> \<open>\<^verbatim>\<open>v / c\<close> for a data point value and an \<^verbatim>\<open>int\<close> literal\<close>
  "dpv_truediv v c = (case dpv_int v of Inl err \<Rightarrow> Inl err | Inr i \<Rightarrow> int_truediv i c)"

text \<open>
  Arithmetic on floats. An \<^verbatim>\<open>int\<close> operand is converted to a float first; the \<^verbatim>\<open>int\<close>
  literals of \<^verbatim>\<open>app.py\<close> (2, 1000, 3600) are floats exactly.
\<close>

definition inf_of_sign :: "bool \<Rightarrow> pyfloat" where
  "inf_of_sign positive = (if positive then PosInf else NegInf)"

fun float_add :: "pyfloat \<Rightarrow> pyfloat \<Rightarrow> pyfloat" where
  "float_add NaN y = NaN"
| "float_add x NaN = NaN"
| "float_add (Finite a) (Finite b) = fl (a + b)"
| "float_add PosInf NegInf = NaN"
| "float_add NegInf PosInf = NaN"
| "float_add (Finite a) y = y"
| "float_add x y = x"

fun float_mul :: "pyfloat \<Rightarrow> pyfloat \<Rightarrow> pyfloat" where
  "float_mul NaN y = NaN"
| "float_mul x NaN = NaN"
| "float_mul (Finite a) (Finite b) = fl (a * b)"
| "float_mul (Finite a) y = (if a = 0 then NaN else inf_of_sign ((0 < a) = (y = PosInf)))"
| "float_mul x (Finite b) = (if b = 0 then NaN else inf_of_sign ((0 < b) = (x = PosInf)))"
| "float_mul x y = inf_of_sign (x = y)"

fun float_div :: "pyfloat \<Rightarrow> pyfloat \<Rightarrow> pyfloat" where
  \<comment> \<open>\<^verbatim>\<open>x / y\<close> for a divisor other than zero\<close>
  "float_div NaN y = NaN"
| "float_div x NaN = NaN"
| "float_div (Finite a) (Finite b) = fl (a / b)"
| "float_div (Finite a) y = Finite 0"
| "float_div x (Finite b) = inf_of_sign ((0 < b) = (x = PosInf))"
| "float_div x y = NaN"

definition py_truediv :: "pyfloat \<Rightarrow> pyfloat \<Rightarrow> py_error + pyfloat" where
  \<comment> \<open>\<^verbatim>\<open>x / y\<close> on floats\<close>
  "py_truediv x y = (if y = Finite 0 then Inl ZeroDivisionError else Inr (float_div x y))"

fun float_less :: "pyfloat \<Rightarrow> pyfloat \<Rightarrow> bool" where
  \<comment> \<open>\<^verbatim>\<open>x < y\<close>; every comparison with a NaN is false\<close>
  "float_less NaN y = False"
| "float_less x NaN = False"
| "float_less (Finite a) (Finite b) = (a < b)"
| "float_less x NegInf = False"
| "float_less PosInf y = False"
| "float_less x y = True"

definition py_round :: "pyfloat \<Rightarrow> nat \<Rightarrow> pyfloat" where
  \<comment> \<open>\<^verbatim>\<open>round(x, ndigits)\<close>: the exact value of \<open>x\<close> is rounded to \<open>ndigits\<close> decimals, ties
      to even, and the float nearest to that decimal is returned; infinities and NaN
      round to themselves\<close>
  "py_round x ndigits =
     (case x of
        Finite r \<Rightarrow> fl (of_int (round_half_even (r * 10 ^ ndigits)) / 10 ^ ndigits)
      | _ \<Rightarrow> x)"

definition py_sum :: "pyfloat list \<Rightarrow> pyfloat" where
  \<comment> \<open>\<^verbatim>\<open>sum(xs)\<close> on floats: from 0, adding from left to right (CPython up to 3.11; from
      3.12 on \<^verbatim>\<open>sum\<close> compensates the rounding errors of the partial sums)\<close>
  "py_sum xs = foldl float_add (Finite 0) xs"

fun py_max :: "pyfloat list \<Rightarrow> py_error + pyfloat" where
  \<comment> \<open>\<^verbatim>\<open>max(xs)\<close>: the first item that no later item is greater than\<close>
  "py_max [] = Inl ValueError"
| "py_max (x # xs) = Inr (foldl (\<lambda>m item. if float_less m item then item else m) x xs)"

fun py_min :: "pyfloat list \<Rightarrow> py_error + pyfloat" where
  "py_min [] = Inl ValueError"
| "py_min (x # xs) = Inr (foldl (\<lambda>m item. if float_less item m then item else m) x xs)"

fun dpv_ints :: "dpv list \<Rightarrow> py_error + int list" where
  \<comment> \<open>the integers that \<^verbatim>\<open>sum\<close>, \<^verbatim>\<open>max\<close> and \<^verbatim>\<open>min\<close> see in a list of data point values\<close>
  "dpv_ints [] = Inr []"
| "dpv_ints (v # vs) =
     (case dpv_int v of Inl err \<Rightarrow> Inl err | Inr i \<Rightarrow>
      case dpv_ints vs of Inl err \<Rightarrow> Inl err | Inr is \<Rightarrow> Inr (i # is))"

subsection \<open>Naive datetimes\<close>

text \<open>
  \<^verbatim>\<open>datetime.now()\<close> is a naive datetime with microsecond resolution. It is modelled by
  the number of microseconds since \<^verbatim>\<open>datetime.min\<close> (0001-01-01T00:00:00): comparison and
  subtraction of datetimes are comparison and subtraction of these numbers. The store
  keeps \<^verbatim>\<open>isoformat()\<close> of a datetime and reads it back with \<^verbatim>\<open>fromisoformat\<close>, which
  returns the same datetime, so an entry of the model holds the datetime itself.
\<close>

type_synonym datetime = int

definition us_per_day :: int where
  "us_per_day = 86400000000"

definition datetime_max :: int where
  \<comment> \<open>9999-12-31T23:59:59.999999, day 3652058 after \<^verbatim>\<open>datetime.min\<close>\<close>
  "datetime_max = 3652059 * us_per_day - 1"

definition sub_days :: "datetime \<Rightarrow> int \<Rightarrow> py_error + datetime" where
  \<comment> \<open>\<^verbatim>\<open>t - timedelta(days=n)\<close>: \<^verbatim>\<open>timedelta\<close> takes at most 999999999 days, and the
      difference has to be a datetime\<close>
  "sub_days t n =
     (if n < - 999999999 \<or> 999999999 < n then Inl OverflowError
      else let r = t - n * us_per_day
           in if r < 0 \<or> datetime_max < r then Inl OverflowError else Inr r)"

text \<open>
  \<^verbatim>\<open>strftime\<close>. The calendar date of a datetime is computed as CPython's \<^verbatim>\<open>_ord2ymd\<close>
  does, from the number of days since 0001-01-01. \<^verbatim>\<open>%Y\<close> prints the year without
  padding (as glibc does; from the year 1000 on every platform prints the same four
  digits), \<^verbatim>\<open>%m\<close>, \<^verbatim>\<open>%d\<close>, \<^verbatim>\<open>%H\<close> and \<^verbatim>\<open>%M\<close> print two digits.
\<close>

definition digit_char :: "nat \<Rightarrow> char" where
  "digit_char d = ''0123456789'' ! d"

fun decimal :: "nat \<Rightarrow> string" where
  "decimal n = (if n < 10 then [digit_char n] else decimal (n div 10) @ [digit_char (n mod 10)])"

declare decimal.simps [simp del]

definition two_digits :: "nat \<Rightarrow> string" where
  "two_digits n = [digit_char (n div 10 mod 10), digit_char (n mod 10)]"

definition days_before_month :: "nat \<Rightarrow> nat" where
  \<comment> \<open>\<^verbatim>\<open>_DAYS_BEFORE_MONTH\<close>, for months 1 to 12 of a year that is not a leap year\<close>
  "days_before_month m = [0, 0, 31, 59, 90, 120, 151, 181, 212, 243, 273, 304, 334] ! m"

definition days_in_month :: "nat \<Rightarrow> nat" where
  \<comment> \<open>\<^verbatim>\<open>_DAYS_IN_MONTH\<close>\<close>
  "days_in_month m = [0, 31, 28, 31, 30, 31, 30, 31, 31, 30, 31, 30, 31] ! m"

definition ord2ymd :: "nat \<Rightarrow> nat \<times> nat \<times> nat" where
  \<comment> \<open>year, month and day of the day \<open>n0\<close> days after 0001-01-01\<close>
  "ord2ymd n0 =
     (let n400 = n0 div 146097; r400 = n0 mod 146097;
          n100 = r400 div 36524; r100 = r400 mod 36524;
          n4 = r100 div 1461; r4 = r100 mod 1461;
          n1 = r4 div 365; n = r4 mod 365;
          year = n400 * 400 + 1 + n100 * 100 + n4 * 4 + n1
      in if n1 = 4 \<or> n100 = 4 then (year - 1, 12, 31)
         else let leapyear = (n1 = 3 \<and> (n4 \<noteq> 24 \<or> n100 = 3));
                  month = (n + 50) div 32;
                  preceding = days_before_month month + (if 2 < month \<and> leapyear then 1 else 0)
              in if n < preceding
                 then (year, month - 1,
                       n - (preceding - (days_in_month (month - 1) +
                                         (if month - 1 = 2 \<and> leapyear then 1 else 0))) + 1)
                 else (year, month, n - preceding + 1))"

definition strftime_Ymd :: "datetime \<Rightarrow> string" where
  \<comment> \<open>\<^verbatim>\<open>t.strftime('%Y-%m-%d')\<close>\<close>
  "strftime_Ymd t =
     (case ord2ymd (nat (t div us_per_day)) of
        (y, m, d) \<Rightarrow> decimal y @ ''-'' @ two_digits m @ ''-'' @ two_digits d)"

definition strftime_HM :: "datetime \<Rightarrow> string" where
  \<comment> \<open>\<^verbatim>\<open>t.strftime('%H:%M')\<close>\<close>
  "strftime_HM t =
     (let s = nat (t mod us_per_day div 1000000)
      in two_digits (s div 3600) @ '':'' @ two_digits (s mod 3600 div 60))"

definition total_seconds :: "int \<Rightarrow> pyfloat" where
  \<comment> \<open>\<^verbatim>\<open>timedelta.total_seconds()\<close> of a difference of \<open>d\<close> microseconds: the \<^verbatim>\<open>int\<close>
      division \<^verbatim>\<open>d / 10**6\<close>\<close>
  "total_seconds d = fl (of_int d / 1000000)"

section \<open>The sample store: energy\_data.json\<close>

record entry =
  timestamp :: datetime
  current_ma :: dpv
  power_w :: pyfloat
  voltage_v :: pyfloat
  total_kwh :: pyfloat
  is_on :: bool

text \<open>
  The file either holds a list of entries (\<^verbatim>\<open>init_files\<close> writes \<^verbatim>\<open>[]\<close>), or reading it
  raises (\<open>None\<close>: it is missing or its text is not valid JSON).

  CPython converts between \<^verbatim>\<open>int\<close> and decimal text only up to 4300 digits
  (\<^verbatim>\<open>sys.int_info.default_max_str_digits\<close>): beyond that \<^verbatim>\<open>json.load\<close> and \<^verbatim>\<open>json.dump\<close>
  raise \<^verbatim>\<open>ValueError\<close>. The only \<^verbatim>\<open>int\<close> of an entry is \<^verbatim>\<open>current_ma\<close>, stored as the
  device sent it.
\<close>

type_synonym storage = "entry list option"

fun ndigits :: "nat \<Rightarrow> nat" where
  "ndigits n = (if n < 10 then 1 else Suc (ndigits (n div 10)))"

declare ndigits.simps [simp del]

definition json_int_ok :: "dpv \<Rightarrow> bool" where
  "json_int_ok v = (case v of N i \<Rightarrow> ndigits (nat \<bar>i\<bar>) \<le> 4300 | _ \<Rightarrow> True)"

definition json_ok :: "entry list \<Rightarrow> bool" where
  "json_ok xs = list_all (\<lambda>e. json_int_ok (current_ma e)) xs"

definition read_file :: "storage \<Rightarrow> py_error + entry list" where
  \<comment> \<open>\<^verbatim>\<open>with open(JSON_FILE, 'r') as f: json.load(f)\<close>\<close>
  "read_file store =
     (case store of
        None \<Rightarrow> Inl StorageError
      | Some xs \<Rightarrow> if json_ok xs then Inr xs else Inl ValueError)"

definition write_file :: "entry list \<Rightarrow> storage \<times> py_error option" where
  \<comment> \<open>\<^verbatim>\<open>with open(JSON_FILE, 'w') as f: json.dump(xs, f)\<close>: opening truncates the file, and
      when \<^verbatim>\<open>json.dump\<close> raises, what is left is a prefix of the text, which is not valid
      JSON\<close>
  "write_file xs = (if json_ok xs then (Some xs, None) else (None, Some ValueError))"

definition make_entry :: "dps \<Rightarrow> datetime \<Rightarrow> py_error + entry" where
  \<comment> \<open>the dictionary display of lines 75 to 84, its items evaluated in order\<close>
  "make_entry data now =
     (case dpv_truediv (dps_get data ''19'' (N 0)) 10 of Inl err \<Rightarrow> Inl err | Inr p \<Rightarrow>
      case dpv_truediv (dps_get data ''20'' (N 0)) 10 of Inl err \<Rightarrow> Inl err | Inr v \<Rightarrow>
      case dpv_truediv (dps_get data ''17'' (N 0)) 1000 of Inl err \<Rightarrow> Inl err | Inr k \<Rightarrow>
      Inr \<lparr>timestamp = now,
           current_ma = dps_get data ''18'' (N 0),
           power_w = p, voltage_v = v, total_kwh = k,
           is_on = py_bool (dps_get data ''1'' (B False))\<rparr>)"

definition save_energy_data_try :: "storage \<Rightarrow> dps \<Rightarrow> datetime \<Rightarrow> datetime \<Rightarrow> py_error + entry list" where
  \<comment> \<open>lines 72 to 93: \<open>now1\<close> is the clock read at line 76, \<open>now2\<close> the one at line 89; the
      result is the list handed to the write of lines 95 and 96\<close>
  "save_energy_data_try store data now1 now2 =
     (case read_file store of Inl err \<Rightarrow> Inl err | Inr existing_data \<Rightarrow>
      case make_entry data now1 of Inl err \<Rightarrow> Inl err | Inr e \<Rightarrow>
      case sub_days now2 30 of Inl err \<Rightarrow> Inl err | Inr cutoff \<Rightarrow>
      Inr (filter (\<lambda>x. cutoff < timestamp x) (existing_data @ [e])))"

definition save_energy_data :: "storage \<Rightarrow> dps \<Rightarrow> datetime \<Rightarrow> datetime \<Rightarrow> storage \<times> py_error option" where
  \<comment> \<open>the file afterwards, and the error printed by the \<^verbatim>\<open>except\<close> branch if any\<close>
  "save_energy_data store data now1 now2 =
     (case save_energy_data_try store data now1 now2 of
        Inl err \<Rightarrow> (store, Some err)
      | Inr xs \<Rightarrow> write_file xs)"

text \<open>One call of \<^verbatim>\<open>save_energy_data\<close> by the monitor thread: the device data and the two clock reads.\<close>

record save_call =
  call_data :: dps
  stamp_clock :: datetime
  cutoff_clock :: datetime

fun save_all :: "storage \<Rightarrow> save_call list \<Rightarrow> storage" where
  "save_all store [] = store"
| "save_all store (c # cs) =
     save_all (fst (save_energy_data store (call_data c) (stamp_clock c) (cutoff_clock c))) cs"

section \<open>History: grouping by day and daily statistics\<close>

text \<open>
  \<^verbatim>\<open>daily_data\<close> is a dictionary from the date string to four lists. A dictionary keeps
  its keys in insertion order, so it is a list of pairs with distinct keys.
\<close>

record bucket =
  power_seq :: "pyfloat list"
  voltage_seq :: "pyfloat list"
  current_seq :: "dpv list"
  timestamps_seq :: "datetime list"

definition empty_bucket :: bucket where
  \<comment> \<open>the default of the \<^verbatim>\<open>defaultdict\<close>\<close>
  "empty_bucket = \<lparr>power_seq = [], voltage_seq = [], current_seq = [], timestamps_seq = []\<rparr>"

definition bucket_append :: "entry \<Rightarrow> bucket \<Rightarrow> bucket" where
  \<comment> \<open>the four \<^verbatim>\<open>append\<close>s of lines 116 to 119\<close>
  "bucket_append e b =
     \<lparr>power_seq = power_seq b @ [power_w e],
      voltage_seq = voltage_seq b @ [voltage_v e],
      current_seq = current_seq b @ [current_ma e],
      timestamps_seq = timestamps_seq b @ [timestamp e]\<rparr>"

fun daily_add :: "string \<Rightarrow> entry \<Rightarrow> (string \<times> bucket) list \<Rightarrow> (string \<times> bucket) list" where
  \<comment> \<open>one turn of the loop of line 114 on \<^verbatim>\<open>daily_data[date]\<close>\<close>
  "daily_add date e [] = [(date, bucket_append e empty_bucket)]"
| "daily_add date e ((k, b) # kbs) =
     (if k = date then (k, bucket_append e b) # kbs else (k, b) # daily_add date e kbs)"

definition group_by_date :: "entry list \<Rightarrow> (string \<times> bucket) list" where
  \<comment> \<open>lines 112 to 119\<close>
  "group_by_date recent_data =
     foldl (\<lambda>daily_data e. daily_add (strftime_Ymd (timestamp e)) e daily_data) [] recent_data"

definition bucket_of :: "string \<Rightarrow> entry list \<Rightarrow> bucket" where
  \<comment> \<open>what the samples of one date contribute, one element a sample, in their order\<close>
  "bucket_of d es =
     (let day = filter (\<lambda>e. strftime_Ymd (timestamp e) = d) es
      in \<lparr>power_seq = map power_w day, voltage_seq = map voltage_v day,
          current_seq = map current_ma day, timestamps_seq = map timestamp day\<rparr>)"

definition get_historical_data :: "storage \<Rightarrow> datetime \<Rightarrow> int \<Rightarrow> (string \<times> bucket) list \<times> py_error option" where
  \<comment> \<open>the dictionary returned, and the error printed by the \<^verbatim>\<open>except\<close> branch if any;
      \<open>now\<close> is the clock read of line 106\<close>
  "get_historical_data store now days =
     (case read_file store of Inl err \<Rightarrow> ([], Some err) | Inr all_data \<Rightarrow>
      case sub_days now days of Inl err \<Rightarrow> ([], Some err) | Inr cutoff \<Rightarrow>
      (group_by_date (filter (\<lambda>e. cutoff < timestamp e) all_data), None))"

record stats =
  avg :: pyfloat
  maximum :: pyfloat
  minimum :: pyfloat

record day_stats =
  power_stats :: stats
  voltage_stats :: stats
  current_stats :: stats

definition float_stats :: "pyfloat list \<Rightarrow> py_error + stats" where
  \<comment> \<open>the items \<^verbatim>\<open>'avg'\<close>, \<^verbatim>\<open>'max'\<close> and \<^verbatim>\<open>'min'\<close> of lines 132 to 134 (and 137 to 139); on an
      empty list \<^verbatim>\<open>sum\<close> is the \<^verbatim>\<open>int\<close> 0 and the division by \<^verbatim>\<open>len\<close> raises\<close>
  "float_stats vs =
     (if vs = [] then Inl ZeroDivisionError
      else case py_truediv (py_sum vs) (fl (of_nat (length vs))) of Inl err \<Rightarrow> Inl err | Inr a \<Rightarrow>
           case py_max vs of Inl err \<Rightarrow> Inl err | Inr mx \<Rightarrow>
           case py_min vs of Inl err \<Rightarrow> Inl err | Inr mn \<Rightarrow>
           Inr \<lparr>avg = py_round a 2, maximum = py_round mx 2, minimum = py_round mn 2\<rparr>)"

definition current_stats_of :: "dpv list \<Rightarrow> py_error + stats" where
  \<comment> \<open>lines 142 to 144: the currents are \<^verbatim>\<open>int\<close>s, so their sum, maximum and minimum
      are, and each \<^verbatim>\<open>/\<close> on them is the division of \<^verbatim>\<open>int\<close>s; \<^verbatim>\<open>sum\<close> meets every item
      and raises on a string before \<^verbatim>\<open>max\<close> and \<^verbatim>\<open>min\<close> run\<close>
  "current_stats_of vs =
     (case dpv_ints vs of Inl err \<Rightarrow> Inl err | Inr is \<Rightarrow>
      case int_truediv (sum_list is) (int (length is)) of Inl err \<Rightarrow> Inl err | Inr a \<Rightarrow>
      case int_truediv (foldl max (hd is) (tl is)) 1000 of Inl err \<Rightarrow> Inl err | Inr mx \<Rightarrow>
      case int_truediv (foldl min (hd is) (tl is)) 1000 of Inl err \<Rightarrow> Inl err | Inr mn \<Rightarrow>
      Inr \<lparr>avg = py_round (float_div a (Finite 1000)) 3,
           maximum = py_round mx 3, minimum = py_round mn 3\<rparr>)"

fun analyze_data :: "(string \<times> bucket) list \<Rightarrow> py_error + (string \<times> day_stats) list" where
  "analyze_data [] = Inr []"
| "analyze_data ((date, values) # rest) =
     (if power_seq values \<noteq> []
      then case float_stats (power_seq values) of Inl err \<Rightarrow> Inl err | Inr p \<Rightarrow>
           case float_stats (voltage_seq values) of Inl err \<Rightarrow> Inl err | Inr v \<Rightarrow>
           case current_stats_of (current_seq values) of Inl err \<Rightarrow> Inl err | Inr c \<Rightarrow>
           case analyze_data rest of Inl err \<Rightarrow> Inl err | Inr analysis \<Rightarrow>
           Inr ((date, \<lparr>power_stats = p, voltage_stats = v, current_stats = c\<rparr>) # analysis)
      else analyze_data rest)"

text \<open>
  The route \<^verbatim>\<open>/history\<close>. \<^verbatim>\<open>int(request.args.get('days', 7))\<close> is 7 without the parameter,
  its value when it is the text of an \<^verbatim>\<open>int\<close>, and raises \<^verbatim>\<open>ValueError\<close> otherwise.
\<close>

datatype days_arg = NoDays | Days int | BadDays

datatype history_response =
  HistoryPage "(string \<times> day_stats) list"
| HistoryError py_error

definition history :: "storage \<Rightarrow> datetime \<Rightarrow> days_arg \<Rightarrow> history_response" where
  \<comment> \<open>the page rendered from \<^verbatim>\<open>analysis\<close> (status 200), or the text \<^verbatim>\<open>Error: ...\<close> with
      status 500\<close>
  "history store now arg =
     (case arg of
        BadDays \<Rightarrow> HistoryError ValueError
      | _ \<Rightarrow>
        let days = (case arg of Days n \<Rightarrow> n | _ \<Rightarrow> 7);
            historical_data = fst (get_historical_data store now days)
        in case analyze_data historical_data of
             Inl err \<Rightarrow> HistoryError err
           | Inr analysis \<Rightarrow> HistoryPage analysis)"

section \<open>Day detail and energy of a day\<close>

fun integrate_loop :: "pyfloat \<Rightarrow> (datetime \<times> pyfloat) option \<Rightarrow> entry list \<Rightarrow> pyfloat" where
  \<comment> \<open>the loop of lines 248 to 257 on \<^verbatim>\<open>total_watt_hours\<close> and the pair of
      \<^verbatim>\<open>previous_time\<close> and \<^verbatim>\<open>previous_power\<close>, which are \<^verbatim>\<open>None\<close> together; a datetime is
      never false\<close>
  "integrate_loop total_watt_hours previous [] = total_watt_hours"
| "integrate_loop total_watt_hours previous (e # es) =
     (let current_time = timestamp e;
          power = power_w e;
          total = (case previous of
                     None \<Rightarrow> total_watt_hours
                   | Some (previous_time, previous_power) \<Rightarrow>
                       let time_diff_hours =
                             float_div (total_seconds (current_time - previous_time)) (Finite 3600)
                       in float_add total_watt_hours
                            (float_mul (float_div (float_add previous_power power) (Finite 2))
                               time_diff_hours))
      in integrate_loop total (Some (current_time, power)) es)"

definition integrate :: "entry list \<Rightarrow> pyfloat" where
  \<comment> \<open>lines 244 to 259: \<^verbatim>\<open>total_kwh\<close> of the selected entries\<close>
  "integrate selected_data =
     py_round (float_div (integrate_loop (Finite 0) None selected_data) (Finite 1000)) 3"

text \<open>
  The algorithm of the energy integrator as the specification words it (section 4.4):
  for each adjacent pair \<open>(s[i], s[i+1])\<close>, the hours between the two timestamps, the
  mean of the two powers times these hours; the sum of the segments, divided by 1000
  and rounded to 3 decimals.
\<close>

definition watt_hours_segment :: "entry \<Rightarrow> entry \<Rightarrow> pyfloat" where
  "watt_hours_segment a b =
     (let dt_hours = float_div (total_seconds (timestamp b - timestamp a)) (Finite 3600)
      in float_mul (float_div (float_add (power_w a) (power_w b)) (Finite 2)) dt_hours)"

definition trapezoid_kwh :: "entry list \<Rightarrow> pyfloat" where
  "trapezoid_kwh s =
     py_round
       (float_div
          (foldl float_add (Finite 0) (map (\<lambda>(a, b). watt_hours_segment a b) (zip s (tl s))))
          (Finite 1000))
       3"

fun currents_in_amps :: "entry list \<Rightarrow> py_error + pyfloat list" where
  \<comment> \<open>the list comprehension of line 265\<close>
  "currents_in_amps [] = Inr []"
| "currents_in_amps (e # es) =
     (case dpv_truediv (current_ma e) 1000 of Inl err \<Rightarrow> Inl err | Inr a \<Rightarrow>
      case currents_in_amps es of Inl err \<Rightarrow> Inl err | Inr as \<Rightarrow> Inr (a # as))"

record day_detail =
  detail_timestamps :: "string list"
  detail_power :: "pyfloat list"
  detail_voltage :: "pyfloat list"
  detail_current :: "pyfloat list"
  detail_total_kwh :: pyfloat

datatype detail_response =
  Detail day_detail
| NotFound string
| DetailError py_error

definition historical_data :: "storage \<Rightarrow> string option \<Rightarrow> detail_response" where
  \<comment> \<open>the route \<^verbatim>\<open>/historical_data\<close>: the JSON object with status 200, the error object
      with status 404, or the error object with status 500; \<open>date\<close> is
      \<^verbatim>\<open>request.args.get('date')\<close>\<close>
  "historical_data store date =
     (case read_file store of Inl err \<Rightarrow> DetailError err | Inr all_data \<Rightarrow>
      let selected_data = filter (\<lambda>e. Some (strftime_Ymd (timestamp e)) = date) all_data
      in if selected_data = [] then NotFound ''No data for selected date''
         else let total_kwh = integrate selected_data
              in case currents_in_amps selected_data of
                   Inl err \<Rightarrow> DetailError err
                 | Inr amps \<Rightarrow>
                     Detail \<lparr>detail_timestamps = map (\<lambda>e. strftime_HM (timestamp e)) selected_data,
                             detail_power = map power_w selected_data,
                             detail_voltage = map voltage_v selected_data,
                             detail_current = amps,
                             detail_total_kwh = total_kwh\<rparr>)"

section \<open>The cached device status\<close>

text \<open>
  What \<^verbatim>\<open>device.status()\<close> does when it is called: it raises, or it returns a dictionary
  with or without the key \<^verbatim>\<open>'dps'\<close>. The global \<^verbatim>\<open>device\<close> is \<^verbatim>\<open>None\<close> when the
  initialisation failed.
\<close>

datatype device_reply = Raises | Reply "dps option"

definition status_dps :: "device_reply \<Rightarrow> py_error + dps" where
  \<comment> \<open>\<^verbatim>\<open>device.status().get('dps', {})\<close>\<close>
  "status_dps reply =
     (case reply of
        Raises \<Rightarrow> Inl DeviceError
      | Reply None \<Rightarrow> Inr Map.empty
      | Reply (Some d) \<Rightarrow> Inr d)"

definition device_status_body :: "device_reply option \<Rightarrow> dps" where
  \<comment> \<open>the body of \<^verbatim>\<open>get_cached_device_status\<close>, lines 62 to 67\<close>
  "device_status_body device =
     (case device of
        None \<Rightarrow> Map.empty
      | Some reply \<Rightarrow> (case status_dps reply of Inr d \<Rightarrow> d | Inl err \<Rightarrow> Map.empty))"

text \<open>
  \<^verbatim>\<open>lru_cache(maxsize=1)\<close> on a function without arguments has one slot: empty, or the
  value the body returned at the first call since the last \<^verbatim>\<open>cache_clear\<close>. The third
  component of the result says whether the body ran.
\<close>

type_synonym cache = "dps option"

definition get_cached_device_status :: "cache \<Rightarrow> device_reply option \<Rightarrow> dps \<times> cache \<times> bool" where
  "get_cached_device_status slot device =
     (case slot of
        Some v \<Rightarrow> (v, Some v, False)
      | None \<Rightarrow> (let v = device_status_body device in (v, Some v, True)))"

definition cache_clear :: "cache \<Rightarrow> cache" where
  "cache_clear slot = None"

text \<open>
  A run of the cache: calls of \<^verbatim>\<open>get_cached_device_status\<close>, each at a time and with what
  the device would do if it were asked at that time, and calls of \<^verbatim>\<open>cache_clear\<close>. The run
  lists, for each call of \<^verbatim>\<open>get_cached_device_status\<close>, its time, the value returned and
  whether the device was asked.
\<close>

datatype cache_call = Get "device_reply option" | Clear

fun run_cache :: "cache \<Rightarrow> (datetime \<times> cache_call) list \<Rightarrow> (datetime \<times> dps \<times> bool) list" where
  "run_cache slot [] = []"
| "run_cache slot ((t, Clear) # calls) = run_cache (cache_clear slot) calls"
| "run_cache slot ((t, Get device) # calls) =
     (case get_cached_device_status slot device of
        (v, slot', asked) \<Rightarrow> (t, v, asked) # run_cache slot' calls)"

section \<open>Scenarios of the specification\<close>

text \<open>
  The end-to-end scenario of section 8: from the empty file, three calls of
  \<^verbatim>\<open>save_energy_data\<close> on 2024-03-15 at 12:00, 12:30 and 13:00, the device reporting
  1000, 1500 and 500 tenths of a watt.
\<close>

definition scenario_store :: storage where
  "scenario_store =
     save_all (Some [])
       [\<lparr>call_data = [''19'' \<mapsto> N 1000], stamp_clock = 63846100800000000, cutoff_clock = 63846100800000000\<rparr>,
        \<lparr>call_data = [''19'' \<mapsto> N 1500], stamp_clock = 63846102600000000, cutoff_clock = 63846102600000000\<rparr>,
        \<lparr>call_data = [''19'' \<mapsto> N 500], stamp_clock = 63846104400000000, cutoff_clock = 63846104400000000\<rparr>]"


section \<open>Retention and order of the store\<close>

lemma save_energy_data_try_Inr:
  assumes "save_energy_data_try store data now1 now2 = Inr ys"
  shows "\<exists>xs e. store = Some xs \<and> json_ok xs \<and> timestamp e = now1 \<and>
           current_ma e = dps_get data ''18'' (N 0) \<and> make_entry data now1 = Inr e \<and>
           sub_days now2 30 = Inr (now2 - 30 * us_per_day) \<and>
           ys = filter (\<lambda>x. now2 - 30 * us_per_day < timestamp x) (xs @ [e])"
proof -
  from assms obtain xs where f: "store = Some xs" and ok: "json_ok xs"
    by (cases store) (auto simp: save_energy_data_try_def read_file_def split: if_splits)
  from assms f ok obtain e where e: "make_entry data now1 = Inr e"
    by (cases "make_entry data now1") (auto simp: save_energy_data_try_def read_file_def)
  from assms f ok e obtain c where c: "sub_days now2 30 = Inr c"
    by (cases "sub_days now2 30") (auto simp: save_energy_data_try_def read_file_def)
  then have c': "c = now2 - 30 * us_per_day"
    by (auto simp: sub_days_def Let_def split: if_splits)
  have "timestamp e = now1" and "current_ma e = dps_get data ''18'' (N 0)"
    using e by (auto simp: make_entry_def split: sum.splits)
  moreover have "ys = filter (\<lambda>x. c < timestamp x) (xs @ [e])"
    using assms f ok e c by (simp add: save_energy_data_try_def read_file_def)
  ultimately show ?thesis using f ok e c c' by blast
qed

lemma save_energy_data_ok:
  assumes "save_energy_data store data now1 now2 = (r, None)"
  shows "\<exists>ys. r = Some ys \<and> json_ok ys \<and> save_energy_data_try store data now1 now2 = Inr ys"
  using assms
  by (cases "save_energy_data_try store data now1 now2")
     (auto simp: save_energy_data_def write_file_def split: if_splits)

lemma make_entry_empty:
  "make_entry Map.empty t = Inr \<lparr>timestamp = t, current_ma = N 0, power_w = Finite 0,
     voltage_v = Finite 0, total_kwh = Finite 0, is_on = False\<rparr>"
  by (simp add: make_entry_def dps_get_def dpv_truediv_def dpv_int_def int_truediv_def fl_def py_bool_def)

lemma json_int_ok_zero: "json_int_ok (N 0)"
  by (simp add: json_int_ok_def ndigits.simps [of 0])

lemma save_all_append:
  "save_all store (cs @ ds) = save_all (save_all store cs) ds"
  by (induction cs arbitrary: store) simp_all

lemma save_energy_data_unreadable:
  "fst (save_energy_data None data now1 now2) = None"
  by (simp add: save_energy_data_def save_energy_data_try_def read_file_def)

lemma save_all_unreadable: "save_all None cs = None"
  by (induction cs) (simp_all add: save_energy_data_unreadable)

lemma save_step:
  assumes "fst (save_energy_data (Some xs) data now1 now2) = Some ys"
  shows "subseq (map timestamp ys) (map timestamp xs @ [now1])"
    and "sorted (map timestamp xs @ [now1]) \<Longrightarrow>
           sorted (map timestamp ys) \<and> (\<forall>y\<in>set ys. timestamp y \<le> now1)"
proof -
  have "subseq (map timestamp ys) (map timestamp xs @ [now1]) \<and>
        (sorted (map timestamp xs @ [now1]) \<longrightarrow>
           sorted (map timestamp ys) \<and> (\<forall>y\<in>set ys. timestamp y \<le> now1))"
  proof (cases "save_energy_data_try (Some xs) data now1 now2")
    case (Inl err)
    then have "ys = xs" using assms by (simp add: save_energy_data_def)
    then show ?thesis by (auto simp: sorted_append)
  next
    case (Inr zs)
    then have zs: "zs = ys"
      using assms by (auto simp: save_energy_data_def write_file_def split: if_splits)
    from save_energy_data_try_Inr [OF Inr] obtain e where e: "timestamp e = now1"
      and ys: "ys = filter (\<lambda>x. now2 - 30 * us_per_day < timestamp x) (xs @ [e])"
      unfolding zs by auto
    have "subseq (map timestamp ys) (map timestamp (xs @ [e]))"
      unfolding ys by (intro subseq_map subseq_filter_left)
    then have sub: "subseq (map timestamp ys) (map timestamp xs @ [now1])"
      using e by simp
    have "sorted (map timestamp ys) \<and> (\<forall>y\<in>set ys. timestamp y \<le> now1)"
      if so: "sorted (map timestamp xs @ [now1])"
    proof -
      have "sorted (map timestamp (xs @ [e]))" using so e by simp
      then have "sorted (map timestamp ys)" unfolding ys by (rule sorted_filter)
      moreover have "\<forall>y\<in>set ys. timestamp y \<le> now1"
        using so e by (auto simp: ys sorted_append)
      ultimately show ?thesis by blast
    qed
    with sub show ?thesis by blast
  qed
  then show "subseq (map timestamp ys) (map timestamp xs @ [now1])"
    and "sorted (map timestamp xs @ [now1]) \<Longrightarrow>
           sorted (map timestamp ys) \<and> (\<forall>y\<in>set ys. timestamp y \<le> now1)"
    by blast+
qed

text \<open>
  A file that can be read stays readable as long as the device never reports a current
  of more than 4300 digits.
\<close>

lemma save_all_readable:
  assumes "json_ok xs"
    and "\<forall>c\<in>set cs. json_int_ok (dps_get (call_data c) ''18'' (N 0))"
  shows "\<exists>ys. save_all (Some xs) cs = Some ys \<and> json_ok ys"
  using assms
proof (induction cs arbitrary: xs)
  case Nil
  then show ?case by simp
next
  case (Cons c cs)
  have "\<exists>zs. fst (save_energy_data (Some xs) (call_data c) (stamp_clock c) (cutoff_clock c)) = Some zs
           \<and> json_ok zs"
  proof (cases "save_energy_data_try (Some xs) (call_data c) (stamp_clock c) (cutoff_clock c)")
    case (Inl err)
    then show ?thesis using Cons.prems(1) by (simp add: save_energy_data_def)
  next
    case (Inr zs)
    from save_energy_data_try_Inr [OF Inr] obtain e where
      e: "current_ma e = dps_get (call_data c) ''18'' (N 0)"
      and zs: "zs = filter (\<lambda>x. cutoff_clock c - 30 * us_per_day < timestamp x) (xs @ [e])"
      by auto
    have "json_ok (xs @ [e])"
      using Cons.prems e by (simp add: json_ok_def)
    then have "json_ok zs"
      unfolding zs json_ok_def by (auto simp: list_all_iff)
    then show ?thesis using Inr by (simp add: save_energy_data_def write_file_def)
  qed
  then obtain zs where
    "fst (save_energy_data (Some xs) (call_data c) (stamp_clock c) (cutoff_clock c)) = Some zs"
    and "json_ok zs" by blast
  with Cons.IH [of zs] Cons.prems(2) show ?case by simp
qed

text \<open>
  C1 (retention). Whatever calls came before, when a call of \<^verbatim>\<open>save_energy_data\<close> succeeds
  (nothing is printed by its \<^verbatim>\<open>except\<close> branch), every entry of the file it leaves is
  younger than 30 days at the clock read of line 89, and, the clock not running
  backwards between lines 76 and 89, younger than 30 days at the stamp of the entry
  just appended.
\<close>

theorem retention_after_append:
  assumes "save_energy_data (save_all store cs) (call_data c) (stamp_clock c) (cutoff_clock c) = (r, None)"
    and "stamp_clock c \<le> cutoff_clock c"
  shows "\<exists>ys. r = Some ys \<and> save_all store (cs @ [c]) = Some ys \<and>
           (\<forall>y\<in>set ys. cutoff_clock c - 30 * us_per_day < timestamp y \<and>
                        stamp_clock c - 30 * us_per_day < timestamp y)"
proof -
  let ?s = "save_all store cs"
  from save_energy_data_ok [OF assms(1)] obtain ys where
    t: "save_energy_data_try ?s (call_data c) (stamp_clock c) (cutoff_clock c) = Inr ys"
    and r: "r = Some ys"
    by blast
  from save_energy_data_try_Inr [OF t] obtain xs e where
    ys: "ys = filter (\<lambda>x. cutoff_clock c - 30 * us_per_day < timestamp x) (xs @ [e])"
    by auto
  have "save_all store (cs @ [c]) = Some ys"
    using assms(1) r by (simp add: save_all_append)
  moreover have "\<forall>y\<in>set ys. cutoff_clock c - 30 * us_per_day < timestamp y \<and>
                        stamp_clock c - 30 * us_per_day < timestamp y"
    using assms(2) by (auto simp: ys)
  ultimately show ?thesis using r by blast
qed

theorem retention_after_append_witness:
  "save_energy_data
     (save_all (Some []) [\<lparr>call_data = Map.empty, stamp_clock = 63846057600000000, cutoff_clock = 63846057600000001\<rparr>])
     (call_data \<lparr>call_data = Map.empty, stamp_clock = 63848736000000000, cutoff_clock = 63848736000000005\<rparr>)
     (stamp_clock \<lparr>call_data = Map.empty, stamp_clock = 63848736000000000, cutoff_clock = 63848736000000005\<rparr>)
     (cutoff_clock \<lparr>call_data = Map.empty, stamp_clock = 63848736000000000, cutoff_clock = 63848736000000005\<rparr>)
   = (Some [\<lparr>timestamp = 63848736000000000, current_ma = N 0, power_w = Finite 0,
             voltage_v = Finite 0, total_kwh = Finite 0, is_on = False\<rparr>], None) \<and>
   save_all (Some [])
     [\<lparr>call_data = Map.empty, stamp_clock = 63846057600000000, cutoff_clock = 63846057600000001\<rparr>,
      \<lparr>call_data = Map.empty, stamp_clock = 63848736000000000, cutoff_clock = 63848736000000005\<rparr>]
   = Some [\<lparr>timestamp = 63848736000000000, current_ma = N 0, power_w = Finite 0,
             voltage_v = Finite 0, total_kwh = Finite 0, is_on = False\<rparr>]"
proof -
  let ?a = "\<lparr>call_data = Map.empty, stamp_clock = 63846057600000000, cutoff_clock = 63846057600000001\<rparr>"
  let ?b = "\<lparr>call_data = Map.empty, stamp_clock = 63848736000000000, cutoff_clock = 63848736000000005\<rparr>"
  have h: "save_energy_data (save_all (Some []) [?a]) (call_data ?b) (stamp_clock ?b) (cutoff_clock ?b)
     = (Some [\<lparr>timestamp = 63848736000000000, current_ma = N 0, power_w = Finite 0,
             voltage_v = Finite 0, total_kwh = Finite 0, is_on = False\<rparr>], None)"
    by (simp add: save_energy_data_def save_energy_data_try_def read_file_def write_file_def
          json_ok_def json_int_ok_zero make_entry_empty sub_days_def us_per_day_def datetime_max_def)
  have le: "stamp_clock ?b \<le> cutoff_clock ?b" by simp
  from retention_after_append [OF h le] show ?thesis using h by simp
qed

text \<open>
  C9 (order), as the code has it. \<^verbatim>\<open>save_energy_data\<close> stamps each entry with the naive
  local clock (line 76), appends it at the end and filters the list (lines 86 to 93);
  nothing sorts. So in every readable file reached from a file \<open>xs\<close> by a sequence of
  calls, the stored timestamps are a subsequence of the timestamps of \<open>xs\<close> followed by
  the stamps in call order: appending and pruning drop entries, they never reorder
  them. The stored timestamps are non-decreasing when those of \<open>xs\<close> followed by the
  stamps are, that is, as long as the clock did not step back between two calls.
\<close>

theorem order_follows_clock:
  assumes "save_all (Some xs) cs = Some ys"
  shows "subseq (map timestamp ys) (map timestamp xs @ map stamp_clock cs) \<and>
         (sorted (map timestamp xs @ map stamp_clock cs) \<longrightarrow> sorted (map timestamp ys))"
  using assms
proof (induction cs arbitrary: xs)
  case Nil
  then show ?case by simp
next
  case (Cons c cs)
  let ?t = "stamp_clock c"
  let ?s = "fst (save_energy_data (Some xs) (call_data c) ?t (cutoff_clock c))"
  from Cons.prems have run: "save_all ?s cs = Some ys" by simp
  then obtain zs where zs: "?s = Some zs"
    by (cases ?s) (auto simp: save_all_unreadable)
  note step = save_step [OF zs]
  from Cons.IH [of zs] run zs have
    sub2: "subseq (map timestamp ys) (map timestamp zs @ map stamp_clock cs)"
    and so2: "sorted (map timestamp zs @ map stamp_clock cs) \<longrightarrow> sorted (map timestamp ys)"
    by simp_all
  have "subseq (map timestamp zs @ map stamp_clock cs)
          ((map timestamp xs @ [?t]) @ map stamp_clock cs)"
    using step(1) by (rule list_emb_append_mono) simp
  with sub2 have sub: "subseq (map timestamp ys) (map timestamp xs @ map stamp_clock (c # cs))"
    by (auto intro: subseq_order.order_trans)
  have "sorted (map timestamp ys)"
    if all: "sorted (map timestamp xs @ map stamp_clock (c # cs))"
  proof -
    from all have pre: "sorted (map timestamp xs @ [?t])"
      and rest: "sorted (map stamp_clock cs)"
      and le: "\<forall>u\<in>set (map stamp_clock cs). ?t \<le> u"
      by (auto simp: sorted_append)
    from step(2) [OF pre] have "sorted (map timestamp zs)"
      and up: "\<forall>y\<in>set zs. timestamp y \<le> ?t" by blast+
    then have "sorted (map timestamp zs @ map stamp_clock cs)"
      using rest le by (fastforce simp: sorted_append)
    with so2 show ?thesis by blast
  qed
  with sub show ?case by blast
qed

theorem order_follows_clock_witness:
  "save_all (Some [])
     [\<lparr>call_data = Map.empty, stamp_clock = 63846057600000000, cutoff_clock = 63846057600000001\<rparr>,
      \<lparr>call_data = Map.empty, stamp_clock = 63846057900000000, cutoff_clock = 63846057900000001\<rparr>]
   = Some [\<lparr>timestamp = 63846057600000000, current_ma = N 0, power_w = Finite 0,
             voltage_v = Finite 0, total_kwh = Finite 0, is_on = False\<rparr>,
           \<lparr>timestamp = 63846057900000000, current_ma = N 0, power_w = Finite 0,
             voltage_v = Finite 0, total_kwh = Finite 0, is_on = False\<rparr>] \<and>
   sorted (map timestamp [] @ map stamp_clock
     [\<lparr>call_data = Map.empty, stamp_clock = 63846057600000000, cutoff_clock = 63846057600000001\<rparr>,
      \<lparr>call_data = Map.empty, stamp_clock = 63846057900000000, cutoff_clock = 63846057900000001\<rparr>]) \<and>
   sorted (map timestamp
     [\<lparr>timestamp = 63846057600000000, current_ma = N 0, power_w = Finite 0,
             voltage_v = Finite 0, total_kwh = Finite 0, is_on = False\<rparr>,
      \<lparr>timestamp = 63846057900000000, current_ma = N 0, power_w = Finite 0,
             voltage_v = Finite 0, total_kwh = Finite 0, is_on = False\<rparr>])"
proof -
  let ?a = "\<lparr>call_data = Map.empty, stamp_clock = 63846057600000000, cutoff_clock = 63846057600000001\<rparr>"
  let ?b = "\<lparr>call_data = Map.empty, stamp_clock = 63846057900000000, cutoff_clock = 63846057900000001\<rparr>"
  let ?ys = "[\<lparr>timestamp = 63846057600000000, current_ma = N 0, power_w = Finite 0,
             voltage_v = Finite 0, total_kwh = Finite 0, is_on = False\<rparr>,
           \<lparr>timestamp = 63846057900000000, current_ma = N 0, power_w = Finite 0,
             voltage_v = Finite 0, total_kwh = Finite 0, is_on = False\<rparr>]"
  have h: "save_all (Some []) [?a, ?b] = Some ?ys"
    by (simp add: save_energy_data_def save_energy_data_try_def read_file_def write_file_def
          json_ok_def json_int_ok_zero make_entry_empty sub_days_def us_per_day_def datetime_max_def)
  have s: "sorted (map timestamp [] @ map stamp_clock [?a, ?b])" by simp
  from order_follows_clock [OF h] s have "sorted (map timestamp ?ys)" by blast
  with h s show ?thesis by blast
qed

text \<open>
  C9 as the specification states it fails: the naive local clock steps back when
  daylight saving time ends. On 2024-11-03 a sample is stamped 01:58:00, the clocks go
  back at 02:00, and the next sample, five minutes later, is stamped 01:03:00. Both
  calls succeed, and the file they leave is not in time order.
\<close>

theorem order_invariant_counterexample:
  "save_all (Some [])
     [\<lparr>call_data = Map.empty, stamp_clock = 63866195880000000, cutoff_clock = 63866195880000001\<rparr>,
      \<lparr>call_data = Map.empty, stamp_clock = 63866192580000000, cutoff_clock = 63866192580000001\<rparr>]
   = Some [\<lparr>timestamp = 63866195880000000, current_ma = N 0, power_w = Finite 0,
             voltage_v = Finite 0, total_kwh = Finite 0, is_on = False\<rparr>,
           \<lparr>timestamp = 63866192580000000, current_ma = N 0, power_w = Finite 0,
             voltage_v = Finite 0, total_kwh = Finite 0, is_on = False\<rparr>] \<and>
   \<not> sorted (map timestamp
     [\<lparr>timestamp = 63866195880000000, current_ma = N 0, power_w = Finite 0,
             voltage_v = Finite 0, total_kwh = Finite 0, is_on = False\<rparr>,
      \<lparr>timestamp = 63866192580000000, current_ma = N 0, power_w = Finite 0,
             voltage_v = Finite 0, total_kwh = Finite 0, is_on = False\<rparr>])"
  by (simp add: save_energy_data_def save_energy_data_try_def read_file_def write_file_def
        json_ok_def json_int_ok_zero make_entry_empty sub_days_def us_per_day_def datetime_max_def)

section \<open>Evaluation on concrete inputs\<close>

lemmas date_eval = strftime_Ymd_def ord2ymd_def us_per_day_def Let_def days_before_month_def
  days_in_month_def decimal.simps two_digits_def digit_char_def

lemma ndigits_le: "ndigits n \<le> Suc n"
proof (induction n rule: ndigits.induct)
  case (1 n)
  show ?case
  proof (cases "n < 10")
    case True
    then show ?thesis by (simp add: ndigits.simps [of n])
  next
    case False
    with 1 have "ndigits (n div 10) \<le> Suc (n div 10)" by simp
    moreover have "n div 10 < n" using False by simp
    ultimately show ?thesis using False by (simp add: ndigits.simps [of n])
  qed
qed

lemma json_int_ok_small: "\<bar>i\<bar> < 4300 \<Longrightarrow> json_int_ok (N i)"
  using ndigits_le [of "nat \<bar>i\<bar>"] by (simp add: json_int_ok_def)

lemma floor_rat_numeral: "\<lfloor>numeral a / numeral b :: rat\<rfloor> = numeral a div numeral b"
  by (metis floor_divide_of_int_eq of_int_numeral)

lemma floor_rat_neg_numeral: "\<lfloor>- (numeral a / numeral b) :: rat\<rfloor> = - numeral a div numeral b"
  by (metis divide_minus_left floor_divide_of_int_eq of_int_neg_numeral of_int_numeral)

lemma ceiling_rat_numeral: "\<lceil>numeral a / numeral b :: rat\<rceil> = - (- numeral a div numeral b)"
  by (simp add: ceiling_def floor_rat_neg_numeral)

lemmas fl_eval = fl_def floor_log2_def round_half_even_def pow2_def Let_def bitlen.simps
  floor_rat_numeral floor_rat_neg_numeral ceiling_rat_numeral

lemma fl_zero: "fl 0 = Finite 0"
  by (simp add: fl_def)

lemma py_round_zero: "py_round (Finite 0) n = Finite 0"
  by (simp add: py_round_def round_half_even_def fl_def)

lemma fl_100: "fl 100 = Finite 100" by (simp add: fl_eval)
lemma fl_150: "fl 150 = Finite 150" by (simp add: fl_eval)
lemma fl_50: "fl 50 = Finite 50" by (simp add: fl_eval)
lemma fl_1800: "fl 1800 = Finite 1800" by (simp add: fl_eval)
lemma fl_half: "fl (1 / 2) = Finite (1 / 2)" by (simp add: fl_eval)
lemma fl_250: "fl 250 = Finite 250" by (simp add: fl_eval)
lemma fl_200: "fl 200 = Finite 200" by (simp add: fl_eval)
lemma fl_125: "fl 125 = Finite 125" by (simp add: fl_eval)
lemma fl_62_5: "fl (125 / 2) = Finite (125 / 2)" by (simp add: fl_eval)
lemma fl_112_5: "fl (225 / 2) = Finite (225 / 2)" by (simp add: fl_eval)
lemma fl_0_1125: "fl (9 / 80) = Finite (8106479329266893 / 72057594037927936)" by (simp add: fl_eval)
lemma fl_0_113: "fl (113 / 1000) = Finite (8142508126285857 / 72057594037927936)" by (simp add: fl_eval)
lemma fl_0_087: "fl (87 / 1000) = Finite (3134505340649865 / 36028797018963968)" by (simp add: fl_eval)


lemma entry_1000:
  "make_entry [''19'' \<mapsto> N 1000] t = Inr \<lparr>timestamp = t, current_ma = N 0, power_w = Finite 100,
     voltage_v = Finite 0, total_kwh = Finite 0, is_on = False\<rparr>"
  by (simp add: make_entry_def dps_get_def dpv_truediv_def dpv_int_def int_truediv_def
        fl_zero fl_100 py_bool_def)

lemma entry_1500:
  "make_entry [''19'' \<mapsto> N 1500] t = Inr \<lparr>timestamp = t, current_ma = N 0, power_w = Finite 150,
     voltage_v = Finite 0, total_kwh = Finite 0, is_on = False\<rparr>"
  by (simp add: make_entry_def dps_get_def dpv_truediv_def dpv_int_def int_truediv_def
        fl_zero fl_150 py_bool_def)

lemma entry_500:
  "make_entry [''19'' \<mapsto> N 500] t = Inr \<lparr>timestamp = t, current_ma = N 0, power_w = Finite 50,
     voltage_v = Finite 0, total_kwh = Finite 0, is_on = False\<rparr>"
  by (simp add: make_entry_def dps_get_def dpv_truediv_def dpv_int_def int_truediv_def
        fl_zero fl_50 py_bool_def)


lemma fl_1: "fl 1 = Finite 1" by (simp add: fl_eval)
lemma fl_300: "fl 300 = Finite 300" by (simp add: fl_eval)
lemma fl_3600: "fl 3600 = Finite 3600" by (simp add: fl_eval)
lemma fl_0_15: "fl (3 / 20) = Finite (5404319552844595 / 36028797018963968)" by (simp add: fl_eval)

section \<open>Grouping by day\<close>

lemma bucket_of_Nil: "bucket_of d [] = empty_bucket"
  by (simp add: bucket_of_def empty_bucket_def)











section \<open>Queries\<close>

text \<open>
  C7 (empty day). When the file can be read and no stored sample is on the requested
  date, \<^verbatim>\<open>/historical_data\<close> answers with the error \<^verbatim>\<open>No data for selected date\<close> (status
  404): no series of timestamps, powers, voltages or currents is returned.
\<close>

theorem empty_day_not_found:
  assumes "read_file store = Inr all_data"
    and "\<forall>e\<in>set all_data. Some (strftime_Ymd (timestamp e)) \<noteq> date"
  shows "historical_data store date = NotFound ''No data for selected date''"
proof -
  have "filter (\<lambda>e. Some (strftime_Ymd (timestamp e)) = date) all_data = []"
    using assms(2) by (auto simp: filter_empty_conv)
  then show ?thesis using assms(1) by (simp add: historical_data_def)
qed

theorem empty_day_not_found_witness:
  "read_file (Some [\<lparr>timestamp = 63846100800000000, current_ma = N 100, power_w = Finite 100,
                 voltage_v = Finite 230, total_kwh = Finite 0, is_on = True\<rparr>])
     = Inr [\<lparr>timestamp = 63846100800000000, current_ma = N 100, power_w = Finite 100,
                 voltage_v = Finite 230, total_kwh = Finite 0, is_on = True\<rparr>] \<and>
   historical_data (Some [\<lparr>timestamp = 63846100800000000, current_ma = N 100, power_w = Finite 100,
                 voltage_v = Finite 230, total_kwh = Finite 0, is_on = True\<rparr>]) (Some ''2024-03-16'')
     = NotFound ''No data for selected date''"
proof -
  let ?xs = "[\<lparr>timestamp = 63846100800000000, current_ma = N 100, power_w = Finite 100,
                 voltage_v = Finite 230, total_kwh = Finite 0, is_on = True\<rparr>]"
  have r: "read_file (Some ?xs) = Inr ?xs"
    by (simp add: read_file_def json_ok_def json_int_ok_small)
  have n: "\<forall>e\<in>set ?xs. Some (strftime_Ymd (timestamp e)) \<noteq> Some ''2024-03-16''"
    by (simp add: date_eval)
  from empty_day_not_found [OF r n] r show ?thesis by simp
qed

text \<open>
  C8 (read failure), as the code has it. When the file cannot be read,
  \<^verbatim>\<open>get_historical_data\<close> prints the error and returns the empty dictionary, so
  \<^verbatim>\<open>/history\<close> renders a page with an empty analysis; \<^verbatim>\<open>/historical_data\<close> answers with
  the error and status 500.
\<close>

theorem read_failure_in_queries:
  assumes "read_file store = Inl err"
  shows "get_historical_data store now days = ([], Some err) \<and>
         (arg \<noteq> BadDays \<longrightarrow> history store now arg = HistoryPage []) \<and>
         historical_data store date = DetailError err"
  using assms
  by (cases arg) (simp_all add: get_historical_data_def history_def historical_data_def)

theorem read_failure_in_queries_witness:
  "read_file None = Inl StorageError \<and>
   get_historical_data None 63846104400000000 7 = ([], Some StorageError) \<and>
   history None 63846104400000000 NoDays = HistoryPage [] \<and>
   historical_data None (Some ''2024-03-15'') = DetailError StorageError"
proof -
  have r: "read_file None = Inl StorageError" by (simp add: read_file_def)
  from read_failure_in_queries [OF r, of 63846104400000000 7 NoDays "Some ''2024-03-15''"] r
  show ?thesis by simp
qed

text \<open>
  C8 as the specification states it fails on \<^verbatim>\<open>/history\<close>: with a file that cannot be
  read, the history query of the last 7 days is answered with a page whose analysis is
  empty, not with an error.
\<close>

theorem read_failure_counterexample:
  "read_file None = Inl StorageError \<and> history None 63846104400000000 (Days 7) = HistoryPage []"
  by (simp add: read_file_def history_def get_historical_data_def)

section \<open>Energy of a day\<close>

lemma integrate_loop_Some:
  "integrate_loop acc (Some (timestamp a, power_w a)) es =
     foldl float_add acc (map (\<lambda>(a, b). watt_hours_segment a b) (zip (a # es) es))"
proof (induction es arbitrary: acc a)
  case Nil
  show ?case by simp
next
  case (Cons e es)
  show ?case by (simp add: Cons.IH watt_hours_segment_def Let_def)
qed

text \<open>
  C2 (integration). The loop of \<^verbatim>\<open>historical_data\<close> computes the trapezoidal sum of the
  specification: the segments of the adjacent pairs, added from left to right, divided
  by 1000 and rounded to 3 decimals. This holds for every sequence of samples, sorted
  or not. For no sample or one sample the result is the float 0.0.
\<close>

theorem integrate_is_trapezoid:
  "integrate s = trapezoid_kwh s \<and> (length s \<le> 1 \<longrightarrow> integrate s = Finite 0)"
proof (cases s)
  case Nil
  then show ?thesis by (simp add: integrate_def trapezoid_kwh_def fl_zero py_round_zero)
next
  case (Cons a es)
  have "integrate_loop (Finite 0) None (a # es) =
          integrate_loop (Finite 0) (Some (timestamp a, power_w a)) es"
    by (simp add: Let_def)
  then have eq: "integrate s = trapezoid_kwh s"
    by (simp add: Cons integrate_def trapezoid_kwh_def integrate_loop_Some)
  have "integrate s = Finite 0" if "length s \<le> 1"
  proof -
    from that Cons have "es = []" by simp
    then show ?thesis by (simp add: Cons integrate_def Let_def fl_zero py_round_zero)
  qed
  with eq show ?thesis by blast
qed

lemma one_hour_example:
  "integrate
     [\<lparr>timestamp = 63846100800000000, current_ma = N 0, power_w = Finite 100,
        voltage_v = Finite 230, total_kwh = Finite 0, is_on = True\<rparr>,
      \<lparr>timestamp = 63846104400000000, current_ma = N 0, power_w = Finite 200,
        voltage_v = Finite 230, total_kwh = Finite 0, is_on = True\<rparr>]
   = fl (3 / 20)"
  by (simp add: integrate_def Let_def total_seconds_def fl_3600 fl_1 fl_300 fl_150 fl_0_15
        py_round_def round_half_even_def floor_rat_numeral)

theorem integrate_is_trapezoid_witness:
  "length [\<lparr>timestamp = 63846100800000000, current_ma = N 0, power_w = Finite 100,
             voltage_v = Finite 230, total_kwh = Finite 0, is_on = True\<rparr>] \<le> 1 \<and>
   integrate [\<lparr>timestamp = 63846100800000000, current_ma = N 0, power_w = Finite 100,
             voltage_v = Finite 230, total_kwh = Finite 0, is_on = True\<rparr>] = Finite 0 \<and>
   trapezoid_kwh
     [\<lparr>timestamp = 63846100800000000, current_ma = N 0, power_w = Finite 100,
        voltage_v = Finite 230, total_kwh = Finite 0, is_on = True\<rparr>,
      \<lparr>timestamp = 63846104400000000, current_ma = N 0, power_w = Finite 200,
        voltage_v = Finite 230, total_kwh = Finite 0, is_on = True\<rparr>]
   = fl (3 / 20)"
proof -
  let ?a = "\<lparr>timestamp = 63846100800000000, current_ma = N 0, power_w = Finite 100,
             voltage_v = Finite 230, total_kwh = Finite 0, is_on = True\<rparr>"
  let ?b = "\<lparr>timestamp = 63846104400000000, current_ma = N 0, power_w = Finite 200,
        voltage_v = Finite 230, total_kwh = Finite 0, is_on = True\<rparr>"
  have l: "length [?a] \<le> 1" by simp
  from integrate_is_trapezoid [of "[?a]"] l have z: "integrate [?a] = Finite 0" by blast
  from integrate_is_trapezoid [of "[?a, ?b]"] have "trapezoid_kwh [?a, ?b] = integrate [?a, ?b]"
    by simp
  with one_hour_example have "trapezoid_kwh [?a, ?b] = fl (3 / 20)" by simp
  with l z show ?thesis by blast
qed


lemma scenario_store_eq:
  "scenario_store =
     Some [\<lparr>timestamp = 63846100800000000, current_ma = N 0, power_w = Finite 100,
             voltage_v = Finite 0, total_kwh = Finite 0, is_on = False\<rparr>,
           \<lparr>timestamp = 63846102600000000, current_ma = N 0, power_w = Finite 150,
             voltage_v = Finite 0, total_kwh = Finite 0, is_on = False\<rparr>,
           \<lparr>timestamp = 63846104400000000, current_ma = N 0, power_w = Finite 50,
             voltage_v = Finite 0, total_kwh = Finite 0, is_on = False\<rparr>]"
  by (simp add: scenario_store_def save_energy_data_def save_energy_data_try_def read_file_def
        write_file_def json_ok_def json_int_ok_zero entry_1000 entry_1500 entry_500
        sub_days_def us_per_day_def datetime_max_def)

lemma scenario_integrate:
  "integrate
     [\<lparr>timestamp = 63846100800000000, current_ma = N 0, power_w = Finite 100,
             voltage_v = Finite 0, total_kwh = Finite 0, is_on = False\<rparr>,
           \<lparr>timestamp = 63846102600000000, current_ma = N 0, power_w = Finite 150,
             voltage_v = Finite 0, total_kwh = Finite 0, is_on = False\<rparr>,
           \<lparr>timestamp = 63846104400000000, current_ma = N 0, power_w = Finite 50,
             voltage_v = Finite 0, total_kwh = Finite 0, is_on = False\<rparr>]
   = Finite (8142508126285857 / 72057594037927936)"
  by (simp add: integrate_def Let_def total_seconds_def fl_1800 fl_half fl_250 fl_200 fl_125
        fl_62_5 fl_112_5 fl_0_1125 fl_100 fl_50 py_round_def round_half_even_def floor_rat_numeral fl_0_113)

text \<open>
  C3 (end-to-end scenario), as the code computes it. The three samples give
  \<open>(100 + 150) / 2 * 0.5 + (150 + 50) / 2 * 0.5 = 112.5\<close> watt hours; 112.5 / 1000 is the
  float next to 0.1125, which is a little above 0.1125, and \<^verbatim>\<open>round\<close> to 3 decimals gives
  the float 0.113.
\<close>

theorem day_detail_scenario:
  "historical_data scenario_store (Some ''2024-03-15'') =
     Detail \<lparr>detail_timestamps = [''12:00'', ''12:30'', ''13:00''],
             detail_power = [Finite 100, Finite 150, Finite 50],
             detail_voltage = [Finite 0, Finite 0, Finite 0],
             detail_current = [Finite 0, Finite 0, Finite 0],
             detail_total_kwh = fl (113 / 1000)\<rparr>"
  by (simp add: scenario_store_eq historical_data_def read_file_def json_ok_def json_int_ok_zero
        date_eval strftime_HM_def scenario_integrate fl_0_113 dpv_truediv_def dpv_int_def
        int_truediv_def fl_zero)

text \<open>
  C3 as the specification states it fails: the total of the scenario is not the float
  0.087.
\<close>

theorem day_detail_scenario_counterexample:
  "(case historical_data scenario_store (Some ''2024-03-15'') of
      Detail d \<Rightarrow> detail_total_kwh d \<noteq> fl (87 / 1000)
    | _ \<Rightarrow> False)"
  by (simp add: scenario_store_eq historical_data_def read_file_def json_ok_def json_int_ok_zero
        date_eval strftime_HM_def scenario_integrate fl_0_087 dpv_truediv_def dpv_int_def
        int_truediv_def fl_zero)


section \<open>Daily statistics\<close>















section \<open>The cache\<close>

text \<open>
  C5 (cache expiry). The cache of \<^verbatim>\<open>get_cached_device_status\<close> has no expiry: a call at
  2024-03-15 12:00:00 reads the device, which reports 100.0 W; with no \<^verbatim>\<open>cache_clear\<close> in
  between, a call 11 seconds later returns that value again and does not read the
  device, which would report 200.0 W. The docstring of the function promises a cache of
  10 seconds.
\<close>

theorem cache_has_no_expiry:
  "run_cache None
     [(63846100800000000, Get (Some (Reply (Some [''19'' \<mapsto> N 1000])))),
      (63846100811000000, Get (Some (Reply (Some [''19'' \<mapsto> N 2000]))))]
   = [(63846100800000000, [''19'' \<mapsto> N 1000], True),
      (63846100811000000, [''19'' \<mapsto> N 1000], False)]"
  by (simp add: get_cached_device_status_def device_status_body_def status_dps_def Let_def)




end
